theory Spec2Isabelle
  imports Main
begin

section \<open>Strings and path splitting\<close>

text \<open>
  \<open>SplitPath\<close> (sapi.cpp, line 98) calls \<open>boost::split(parts, str, boost::is_any_of("/"))\<close>
  with the default \<open>token_compress_off\<close>: the string is cut at every \<open>/\<close>, empty tokens are
  kept, and a string with \<open>n\<close> delimiters gives \<open>n + 1\<close> tokens. In particular the empty string
  gives the one-element vector holding the empty token, never the empty vector.
\<close>

fun SplitPath :: "string \<Rightarrow> string list" where
  "SplitPath [] = [[]]"
| "SplitPath (c # cs) =
     (if c = CHR ''/'' then [] # SplitPath cs
      else (case SplitPath cs of
              [] \<Rightarrow> [[c]]
            | p # ps \<Rightarrow> (c # p) # ps))"

text \<open>
  The placeholder test of line 197, \<open>partStr.front() == '{' && partStr.back() == '}'\<close>.
  On the empty string \<open>front()\<close> reads the terminating NUL of the buffer, which is not
  \<open>'{'\<close>, and \<open>&&\<close> does not evaluate \<open>back()\<close>: the test is false there.
\<close>

definition is_param :: "string \<Rightarrow> bool" where
  "is_param partStr =
     (case partStr of
        [] \<Rightarrow> False
      | c # cs \<Rightarrow> c = CHR ''{'' \<and> last (c # cs) = CHR ''}'')"

text \<open>
  Line 206, \<open>std::string(partStr.begin() + 1, partStr.end() - 1)\<close>: the segment without its
  first and its last character. It is only evaluated when the placeholder test holds.
\<close>

definition param_key :: "string \<Rightarrow> string" where
  "param_key partStr = butlast (tl partStr)"

type_synonym path_params = "string \<rightharpoonup> string"

text \<open>
  \<open>std::map::insert\<close> (line 209) adds the pair only when the key is not in the map yet;
  an existing entry keeps its value.
\<close>

definition map_insert :: "'k \<Rightarrow> 'v \<Rightarrow> ('k \<rightharpoonup> 'v) \<Rightarrow> ('k \<rightharpoonup> 'v)" where
  "map_insert k v m = (case m k of None \<Rightarrow> m(k \<mapsto> v) | Some _ \<Rightarrow> m)"

section \<open>Matching one endpoint template\<close>

text \<open>
  The loop of lines 190 to 211, \<open>for (size_t i = 0; i < partsURI.size(); i++)\<close>. The result
  \<open>None\<close> is \<open>fMatch = false\<close> (the \<open>break\<close> of line 202); \<open>Some m\<close> is \<open>fMatch = true\<close> with
  the parameters collected in \<open>mapPathParams\<close>.
\<close>

function match_loop :: "string list \<Rightarrow> string list \<Rightarrow> nat \<Rightarrow> path_params \<Rightarrow> path_params option" where
  "match_loop partsURI partsEndpoint i mapPathParams =
     (if i < length partsURI then
        (let partStr = (if i < length partsEndpoint then partsEndpoint ! i else []);
             uriPartStr = partsURI ! i;
             fParam = is_param partStr
         in if uriPartStr \<noteq> partStr \<and> \<not> fParam then None
            else if fParam then
              match_loop partsURI partsEndpoint (i + 1)
                (map_insert (param_key partStr) uriPartStr mapPathParams)
            else match_loop partsURI partsEndpoint (i + 1) mapPathParams)
      else Some mapPathParams)"
  by pat_completeness auto
termination
  by (relation "measure (\<lambda>(pu, pe, i, m). length pu - i)") auto

declare match_loop.simps [simp del]

text \<open>
  Lines 175 to 216 for one endpoint, given the request's segments after the group
  (\<open>partsURI\<close>) and the endpoint's template segments (\<open>partsEndpoint\<close>): \<open>Some m\<close> when the
  endpoint is inserted into \<open>mapPathMatch\<close> with parameters \<open>m\<close>, \<open>None\<close> when it is not.
\<close>

definition match_endpoint :: "string list \<Rightarrow> string list \<Rightarrow> path_params option" where
  "match_endpoint partsURI partsEndpoint =
     (if partsEndpoint = [] then
        (if partsURI = [] \<or> (length partsURI = 1 \<and> last partsURI = [])
         then Some Map.empty else None)
      else if (length partsURI = length partsEndpoint + 1 \<and> last partsURI = [])
              \<or> length partsURI = length partsEndpoint
      then match_loop partsURI partsEndpoint 0 Map.empty
      else None)"

text \<open>The template segment the loop reads at position \<open>i\<close> (line 193).\<close>

definition seg_at :: "string list \<Rightarrow> nat \<Rightarrow> string" where
  "seg_at partsEndpoint i = (if i < length partsEndpoint then partsEndpoint ! i else [])"

section \<open>Requests, replies and the JSON value\<close>

text \<open>
  Modelled from the spec: \<open>HTTPRequest::RequestMethod\<close>, declared outside the files at hand.
  The spec names the verbs GET, POST and OPTIONS and the value UNKNOWN for a verb that could
  not be parsed; HEAD and PUT are the other verbs of the node's HTTP server.
\<close>

datatype RequestMethod = UNKNOWN | GET | POST | HEAD | PUT | OPTIONS

text \<open>
  Modelled from the spec: \<open>RequestMethodString\<close>, declared outside the files at hand. The
  spec gives the header text \<open>OPTIONS, GET\<close>: a verb is printed by its name.
\<close>

fun RequestMethodString :: "RequestMethod \<Rightarrow> string" where
  "RequestMethodString GET = ''GET''"
| "RequestMethodString POST = ''POST''"
| "RequestMethodString HEAD = ''HEAD''"
| "RequestMethodString PUT = ''PUT''"
| "RequestMethodString OPTIONS = ''OPTIONS''"
| "RequestMethodString UNKNOWN = ''unknown''"

text \<open>
  Modelled from the spec: \<open>UniValue::VType\<close> and the JSON value, declared outside the files
  at hand. The value is a tagged union (Null, Bool, Number, String, Array, Object) whose
  kind is inspected by \<open>type()\<close>.
\<close>

datatype VType = VNULL | VOBJ | VARR | VSTR | VNUM | VBOOL

datatype UniValue =
    UvNull
  | UvBool bool
  | UvNum string
  | UvStr string
  | UvArr "UniValue list"
  | UvObj "(string \<times> UniValue) list"

fun uv_type :: "UniValue \<Rightarrow> VType" where
  "uv_type UvNull = VNULL"
| "uv_type (UvBool b) = VBOOL"
| "uv_type (UvNum n) = VNUM"
| "uv_type (UvStr s) = VSTR"
| "uv_type (UvArr xs) = VARR"
| "uv_type (UvObj kvs) = VOBJ"

text \<open>
  Modelled from the spec: \<open>UniValue::exists\<close> and \<open>UniValue::operator[]\<close> on a key. They look
  the key up among the members of an object, the first member of that name counting, and
  find nothing (the null value) in any other kind of value.
\<close>

fun uv_exists :: "UniValue \<Rightarrow> string \<Rightarrow> bool" where
  "uv_exists (UvObj kvs) k = (map_of kvs k \<noteq> None)"
| "uv_exists v k = False"

fun uv_get :: "UniValue \<Rightarrow> string \<Rightarrow> UniValue" where
  "uv_get (UvObj kvs) k = (case map_of kvs k of None \<Rightarrow> UvNull | Some v \<Rightarrow> v)"
| "uv_get v k = UvNull"

text \<open>
  Modelled from the spec: \<open>SAPI::Codes\<close> and \<open>SAPI::Result\<close>, declared outside the files at
  hand. A result is a code and a message; the codes are \<open>Valid\<close>, \<open>Undefined\<close>,
  \<open>ParameterMissing\<close>, \<open>InvalidType\<close> and those the endpoint groups add. The
  default-constructed result is \<open>Valid\<close> with an empty message, and a result is compared
  with a code by its code.
\<close>

datatype Codes = Valid | Undefined | ParameterMissing | InvalidType | OtherCode nat

record Result =
  code :: Codes
  message :: string

definition Result_default :: Result where
  "Result_default = \<lparr>code = Valid, message = []\<rparr>"

text \<open>
  The body of a reply: either the text handed to \<open>HTTPRequest::WriteReply\<close> as it is, or the
  text \<open>arr.write(1,1) + "\n"\<close> of lines 633 to 639, kept as the list of results whose
  \<open>ToUniValue()\<close> objects form the JSON array \<open>arr\<close>.
\<close>

datatype reply_body = PlainBody string | ErrorArrayBody "Result list"

text \<open>
  Modelled from the spec: the request object \<open>HTTPRequest\<close>, declared outside the files at
  hand, with what the callbacks read (method, URI, validity of the peer's address, the input
  buffer) and what they write (the output headers in the order written, the status and body
  of the reply). \<open>WriteHeader\<close> adds a header, \<open>WriteReply\<close> sets status and body, and
  \<open>ReadBody\<close> hands out the input buffer and drains it; \<open>bodyReads\<close> counts its calls.
\<close>

record HTTPRequest =
  reqMethod :: RequestMethod
  reqURI :: string
  peerValid :: bool
  inBody :: string
  bodyReads :: nat
  outHeaders :: "(string \<times> string) list"
  reply :: "(nat \<times> reply_body) option"

definition WriteHeader :: "string \<Rightarrow> string \<Rightarrow> HTTPRequest \<Rightarrow> HTTPRequest" where
  "WriteHeader hdr val req = req\<lparr>outHeaders := outHeaders req @ [(hdr, val)]\<rparr>"

definition WriteReplyRaw :: "nat \<Rightarrow> reply_body \<Rightarrow> HTTPRequest \<Rightarrow> HTTPRequest" where
  "WriteReplyRaw status body req = req\<lparr>reply := Some (status, body)\<rparr>"

definition ReadBody :: "HTTPRequest \<Rightarrow> string \<times> HTTPRequest" where
  "ReadBody req = (inBody req, req\<lparr>inBody := [], bodyReads := bodyReads req + 1\<rparr>)"

text \<open>The status codes of \<open>rpc/protocol.h\<close> that sapi.cpp uses.\<close>

definition HTTP_OK :: nat where "HTTP_OK = 200"
definition HTTP_BAD_REQUEST :: nat where "HTTP_BAD_REQUEST = 400"
definition HTTP_FORBIDDEN :: nat where "HTTP_FORBIDDEN = 403"
definition HTTP_NOT_FOUND :: nat where "HTTP_NOT_FOUND = 404"
definition HTTP_BAD_METHOD :: nat where "HTTP_BAD_METHOD = 405"
definition HTTP_INTERNAL_SERVER_ERROR :: nat where "HTTP_INTERNAL_SERVER_ERROR = 500"
definition HTTP_SERVICE_UNAVAILABLE :: nat where "HTTP_SERVICE_UNAVAILABLE = 503"

text \<open>
  What the callbacks take from the rest of the node: the warm-up probe
  (\<open>RPCIsInWarmup\<close>: \<open>Some statusmessage\<close> while warming up), the constants \<open>CLIENT_NAME\<close> and
  \<open>strClientVersion\<close>, and the JSON parser \<open>UniValue::read\<close> (\<open>None\<close> when it returns false).
\<close>

record Env =
  warmup :: "string option"
  CLIENT_NAME :: string
  strClientVersion :: string
  uv_read :: "string \<Rightarrow> UniValue option"

text \<open>
  \<open>StartSAPI\<close> (lines 513 and 514) sets the two strings from \<open>SAPI_VERSION_MAJOR = 1\<close> and
  \<open>SAPI_VERSION_MINOR = 0\<close>.
\<close>

definition versionSubPath :: string where
  "versionSubPath = ''/v1''"

definition versionString :: string where
  "versionString = ''1.0''"

section \<open>Replies\<close>

definition AddDefaultHeaders :: "Env \<Rightarrow> HTTPRequest \<Rightarrow> HTTPRequest" where
  "AddDefaultHeaders env req =
     WriteHeader ''Access-Control-Allow-Origin'' ''*''
       (WriteHeader ''SAPI-Version'' versionString
         (WriteHeader ''Client-Version'' (strClientVersion env)
           (WriteHeader ''User-Agent'' (CLIENT_NAME env) req)))"

text \<open>\<open>SAPI::Error(req, status, errors)\<close>, lines 631 to 645; it returns false.\<close>

definition Error_results :: "Env \<Rightarrow> HTTPRequest \<Rightarrow> nat \<Rightarrow> Result list \<Rightarrow> bool \<times> HTTPRequest" where
  "Error_results env req status errors =
     (False,
      WriteReplyRaw status (ErrorArrayBody errors)
        (WriteHeader ''Content-Type'' ''application/json'' (AddDefaultHeaders env req)))"

text \<open>\<open>SAPI::Error(req, status, message)\<close>, lines 647 to 650.\<close>

definition Error_message :: "Env \<Rightarrow> HTTPRequest \<Rightarrow> nat \<Rightarrow> string \<Rightarrow> bool \<times> HTTPRequest" where
  "Error_message env req status msg =
     Error_results env req status [\<lparr>code = Undefined, message = msg\<rparr>]"

text \<open>\<open>SAPI::CheckWarmup\<close>, lines 503 to 509.\<close>

definition CheckWarmup :: "Env \<Rightarrow> HTTPRequest \<Rightarrow> bool \<times> HTTPRequest" where
  "CheckWarmup env req =
     (case warmup env of
        Some statusmessage \<Rightarrow>
          Error_message env req HTTP_SERVICE_UNAVAILABLE
            (''Service temporarily unavailable: '' @ statusmessage)
      | None \<Rightarrow> (True, req))"

text \<open>\<open>ClientAllowed\<close>, lines 105 to 111, on the validity of the peer's address.\<close>

definition ClientAllowed :: "bool \<Rightarrow> bool" where
  "ClientAllowed netaddrIsValid = (if \<not> netaddrIsValid then False else True)"

text \<open>\<open>SAPI::UnknownEndpointHandler\<close>, lines 613 to 616.\<close>

definition UnknownEndpointHandler :: "Env \<Rightarrow> HTTPRequest \<Rightarrow> string \<Rightarrow> bool \<times> HTTPRequest" where
  "UnknownEndpointHandler env req strURIPart =
     Error_message env req HTTP_NOT_FOUND
       (''Invalid endpoint: '' @ reqURI req @ '' with method: ''
          @ RequestMethodString (reqMethod req))"

section \<open>The endpoint registry\<close>

text \<open>
  The validator of a body parameter: the JSON kind it expects (\<open>GetType\<close>) and its check
  (\<open>Validate\<close>). Both are called through the pointer \<open>param.validator\<close>.
\<close>

record Validator =
  GetType :: VType
  Validate :: "string \<Rightarrow> UniValue \<Rightarrow> Result"

record BodyParameter =
  key :: string
  optional :: bool
  validator :: Validator

text \<open>
  An endpoint; the field \<open>endpoint_method\<close> is the member \<open>method\<close>. \<open>addr\<close> is the
  address of the object: \<open>mapPathMatch\<close> is keyed by
  \<open>SAPI::Endpoint*\<close>, so the addresses order its entries. The handler takes the request, the
  path parameters and the body value; it returns its result and the request as it left it.
\<close>

record Endpoint =
  addr :: nat
  path :: string
  endpoint_method :: RequestMethod
  bodyRoot :: VType
  vecBodyParameter :: "BodyParameter list"
  handler :: "HTTPRequest \<Rightarrow> path_params \<Rightarrow> UniValue \<Rightarrow> bool \<times> HTTPRequest"

record EndpointGroup =
  prefix :: string
  endpoints :: "Endpoint list"

type_synonym path_matches = "(Endpoint \<times> path_params) list"

text \<open>
  \<open>mapPathMatch.insert\<close> (lines 180 and 214) on a \<open>std::map\<close> keyed by the endpoint's address:
  the entries stay in ascending order of the address, and a key that is present keeps its
  entry.
\<close>

fun mapPathMatch_insert :: "Endpoint \<times> path_params \<Rightarrow> path_matches \<Rightarrow> path_matches" where
  "mapPathMatch_insert x [] = [x]"
| "mapPathMatch_insert x (y # ys) =
     (if addr (fst x) < addr (fst y) then x # y # ys
      else if addr (fst x) = addr (fst y) then y # ys
      else y # mapPathMatch_insert x ys)"

text \<open>The inner loop of lines 170 to 217 over the endpoints of one group.\<close>

definition match_group :: "string list \<Rightarrow> Endpoint list \<Rightarrow> path_matches \<Rightarrow> path_matches" where
  "match_group partsURI eps mapPathMatch =
     fold (\<lambda>endpoint acc.
             case match_endpoint partsURI (SplitPath (path endpoint)) of
               None \<Rightarrow> acc
             | Some mapPathParams \<Rightarrow> mapPathMatch_insert (endpoint, mapPathParams) acc)
          eps mapPathMatch"

text \<open>Lines 163 to 219: nothing is matched when no segment follows the group.\<close>

definition path_match :: "EndpointGroup list \<Rightarrow> string \<Rightarrow> string list \<Rightarrow> path_matches" where
  "path_match endpointGroups pathGroup partsURI =
     (if partsURI \<noteq> [] then
        fold (\<lambda>group acc.
                if prefix group \<noteq> pathGroup then acc
                else match_group partsURI (endpoints group) acc)
             endpointGroups []
      else [])"

section \<open>The work queue\<close>

text \<open>
  Modelled from the spec: the class \<open>WorkQueue\<close> is declared outside the files at hand. The
  spec gives it a FIFO of items, the capacity \<open>maxDepth\<close> and the flag \<open>running\<close>;
  \<open>Enqueue\<close> checks \<open>running && size < maxDepth\<close> under the queue's lock, appends the item and
  returns true, or returns false and leaves the queue as it was. The lock makes the check
  and the append one step, which is the one step of this function.
\<close>

record 'a WorkQueue =
  running :: bool
  maxDepth :: nat
  queue :: "'a list"

definition Enqueue :: "'a WorkQueue \<Rightarrow> 'a \<Rightarrow> bool \<times> 'a WorkQueue" where
  "Enqueue wq item =
     (if running wq \<and> length (queue wq) < maxDepth wq
      then (True, wq\<lparr>queue := queue wq @ [item]\<rparr>)
      else (False, wq))"

text \<open>Enqueuing a list of items one after the other: the results, and the queue left.\<close>

fun Enqueue_all :: "'a WorkQueue \<Rightarrow> 'a list \<Rightarrow> bool list \<times> 'a WorkQueue" where
  "Enqueue_all wq [] = ([], wq)"
| "Enqueue_all wq (item # items) =
     (case Enqueue wq item of
        (ok, wq') \<Rightarrow> (case Enqueue_all wq' items of (oks, wq'') \<Rightarrow> (ok # oks, wq'')))"

text \<open>\<open>SAPIWorkItem\<close> (line 245): the request, the path parameters and the endpoint.\<close>

record SAPIWorkItem =
  item_req :: HTTPRequest
  item_params :: path_params
  item_endpoint :: Endpoint

section \<open>The request callback\<close>

text \<open>
  What a call of \<open>sapi_request_cb\<close> ends in: a reply written on the request, the request
  handed to the work queue, the failed \<open>assert(workQueue)\<close> of line 246, or \<open>front()\<close> of an
  empty vector at line 158 (which \<open>SplitPath\<close> never produces).
\<close>

datatype outcome = Answered HTTPRequest | Queued | AssertFailed | EmptyVector

text \<open>Lines 223 to 227: the text of the \<open>Access-Control-Allow-Methods\<close> header.\<close>

definition allowed_methods :: "path_matches \<Rightarrow> string" where
  "allowed_methods mapPathMatch =
     fold (\<lambda>match strMethods. strMethods @ '', '' @ RequestMethodString (endpoint_method (fst match)))
          mapPathMatch (RequestMethodString OPTIONS)"

text \<open>
  Lines 153 to 256, with \<open>strURI\<close> the request's URI after the version prefix (it starts
  with a slash here).
\<close>

definition sapi_route ::
  "Env \<Rightarrow> EndpointGroup list \<Rightarrow> SAPIWorkItem WorkQueue option \<Rightarrow> HTTPRequest \<Rightarrow> string
     \<Rightarrow> outcome \<times> SAPIWorkItem WorkQueue option" where
  "sapi_route env endpointGroups workQueue hreq strURI =
     (case SplitPath (drop 1 strURI) of
        [] \<Rightarrow> (EmptyVector, workQueue)
      | pathGroup # partsURI \<Rightarrow>
          (let mapPathMatch = path_match endpointGroups pathGroup partsURI in
           if mapPathMatch \<noteq> [] \<and> reqMethod hreq = OPTIONS then
             (Answered
                (WriteReplyRaw HTTP_OK (PlainBody [])
                  (WriteHeader ''Access-Control-Allow-Headers'' ''Content-Type''
                    (WriteHeader ''Access-Control-Allow-Methods'' (allowed_methods mapPathMatch)
                      (AddDefaultHeaders env hreq)))),
              workQueue)
           else
             (case find (\<lambda>entry. reqMethod hreq = endpoint_method (fst entry)) mapPathMatch of
                Some fullMatch \<Rightarrow>
                  (let item = \<lparr>item_req = hreq, item_params = snd fullMatch,
                                item_endpoint = fst fullMatch\<rparr> in
                   case workQueue of
                     None \<Rightarrow> (AssertFailed, workQueue)
                   | Some wq \<Rightarrow>
                       (case Enqueue wq item of
                          (True, wq') \<Rightarrow> (Queued, Some wq')
                        | (False, wq') \<Rightarrow>
                            (Answered
                               (WriteReplyRaw HTTP_INTERNAL_SERVER_ERROR
                                  (PlainBody ''Work queue depth exceeded'') (item_req item)),
                             Some wq')))
              | None \<Rightarrow> (Answered (snd (UnknownEndpointHandler env hreq strURI)), workQueue))))"

text \<open>\<open>sapi_request_cb\<close>, lines 114 to 256; the checks of lines 121 to 151 come first.\<close>

definition sapi_request_cb ::
  "Env \<Rightarrow> EndpointGroup list \<Rightarrow> SAPIWorkItem WorkQueue option \<Rightarrow> HTTPRequest
     \<Rightarrow> outcome \<times> SAPIWorkItem WorkQueue option" where
  "sapi_request_cb env endpointGroups workQueue hreq =
     (let method = reqMethod hreq in
      case CheckWarmup env hreq of
        (False, hreq') \<Rightarrow> (Answered hreq', workQueue)
      | (True, hreq') \<Rightarrow>
          if \<not> ClientAllowed (peerValid hreq') then
            (Answered (snd (Error_message env hreq' HTTP_FORBIDDEN ''Access forbidden'')),
             workQueue)
          else if method = UNKNOWN then
            (Answered (snd (Error_message env hreq' HTTP_BAD_METHOD ''Invalid method'')),
             workQueue)
          else
            (let strURI = reqURI hreq' in
             if take (length versionSubPath) strURI \<noteq> versionSubPath then
               (Answered (snd (Error_message env hreq' HTTP_NOT_FOUND
                  ''Invalid api version. Use: <host>/v1/<endpoint>'')), workQueue)
             else
               (let strURI = drop (length versionSubPath) strURI in
                if strURI = [] \<or> hd strURI \<noteq> CHR ''/'' then
                  (Answered (snd (Error_message env hreq' HTTP_NOT_FOUND
                     ''Endpoint missing. Use: <host>/v1/<endpoint>'')), workQueue)
                else sapi_route env endpointGroups workQueue hreq' strURI)))"

text \<open>What a call of the callback wrote on the request, when it answered it.\<close>

definition outcome_reply :: "outcome \<Rightarrow> (nat \<times> reply_body) option" where
  "outcome_reply out = (case out of Answered r \<Rightarrow> reply r | _ \<Rightarrow> None)"

definition outcome_headers :: "outcome \<Rightarrow> (string \<times> string) list" where
  "outcome_headers out = (case out of Answered r \<Rightarrow> outHeaders r | _ \<Rightarrow> [])"

section \<open>Body validation and execution\<close>

text \<open>Lines 460 to 482: the text appended for the kind the validator expects.\<close>

fun expected_text :: "VType \<Rightarrow> string" where
  "expected_text VARR = '' -- expected JSON-Array''"
| "expected_text VBOOL = '' -- expected Bool''"
| "expected_text VNULL = '' -- expected Null''"
| "expected_text VNUM = '' -- expected Number''"
| "expected_text VOBJ = '' -- expected Object''"
| "expected_text VSTR = '' -- expected String''"

text \<open>
  \<open>ParameterBaseCheck\<close>, lines 444 to 492. The \<open>default\<close> branch of the \<open>switch\<close> has no
  value of \<open>VType\<close> left to take.
\<close>

definition ParameterBaseCheck :: "UniValue \<Rightarrow> BodyParameter \<Rightarrow> Result" where
  "ParameterBaseCheck obj param =
     (if \<not> uv_exists obj (key param) \<and> \<not> optional param then
        \<lparr>code = ParameterMissing, message = ''Parameter missing: '' @ key param\<rparr>
      else if uv_exists obj (key param) then
        (if uv_type (uv_get obj (key param)) \<noteq> GetType (validator param) then
           \<lparr>code = InvalidType,
            message = ''Invalid type for key: '' @ key param
                        @ expected_text (GetType (validator param))\<rparr>
         else Result_default)
      else Result_default)"

text \<open>The body of the loop of lines 579 to 595, on the vector \<open>results\<close>.\<close>

definition validate_param :: "UniValue \<Rightarrow> BodyParameter \<Rightarrow> Result list \<Rightarrow> Result list" where
  "validate_param bodyParameter param results =
     (let result = ParameterBaseCheck bodyParameter param in
      if code result \<noteq> Valid then results @ [result]
      else if uv_exists bodyParameter (key param) then
        (let result' = Validate (validator param) (key param)
                         (uv_get bodyParameter (key param)) in
         if code result' \<noteq> Valid then results @ [result'] else results)
      else results)"

definition validate_params :: "UniValue \<Rightarrow> BodyParameter list \<Rightarrow> Result list" where
  "validate_params bodyParameter params = fold (validate_param bodyParameter) params []"

text \<open>
  Lines 546 to 570: the body text is read between brackets and must give an array of one
  value; otherwise the \<open>runtime_error\<close> thrown at line 551 is caught at line 567, and its
  text is the \<open>Inl\<close> value.
\<close>

definition parse_body :: "Env \<Rightarrow> string \<Rightarrow> string + UniValue" where
  "parse_body env bodyStr =
     (case uv_read env (''['' @ bodyStr @ '']'') of
        Some (UvArr [v]) \<Rightarrow> Inr v
      | _ \<Rightarrow> Inl (''Error parsing JSON:'' @ bodyStr))"

text \<open>
  \<open>SAPIValidateBody\<close>, lines 535 to 601: the result, the request as it is left, and the
  reference parameter \<open>bodyParameter\<close> as it is left.
\<close>

definition SAPIValidateBody ::
  "Env \<Rightarrow> HTTPRequest \<Rightarrow> Endpoint \<Rightarrow> UniValue \<Rightarrow> bool \<times> HTTPRequest \<times> UniValue" where
  "SAPIValidateBody env req endpoint bodyParameter =
     (if bodyRoot endpoint \<noteq> VARR \<and> bodyRoot endpoint \<noteq> VOBJ then (True, req, bodyParameter)
      else
        (case ReadBody req of
           (bodyStr, req1) \<Rightarrow>
             if bodyStr = [] then
               (False, snd (Error_message env req1 HTTP_BAD_REQUEST
                  ''No body parameter object defined in the body: {...TBD...}''), bodyParameter)
             else
               (case parse_body env bodyStr of
                  Inl what \<Rightarrow>
                    (False, snd (Error_message env req1 HTTP_BAD_REQUEST (''Error: '' @ what)),
                     bodyParameter)
                | Inr v \<Rightarrow>
                    if bodyRoot endpoint = VOBJ \<and> uv_type v \<noteq> VOBJ then
                      (False, snd (Error_message env req1 HTTP_BAD_REQUEST
                         ''Parameter json is expedted to be a JSON object: {...TBD... }''), v)
                    else if bodyRoot endpoint = VARR \<and> uv_type v \<noteq> VARR then
                      (False, snd (Error_message env req1 HTTP_BAD_REQUEST
                         ''Parameter json is expedted to be a JSON array: {...TBD... }''), v)
                    else
                      (let results = validate_params v (vecBodyParameter endpoint) in
                       if results \<noteq> [] then
                         (False, snd (Error_results env req1 HTTP_BAD_REQUEST results), v)
                       else (True, req1, v)))))"

text \<open>
  \<open>SAPIExecuteEndpoint\<close>, lines 603 to 611; the local \<open>bodyParameter\<close> is default-constructed,
  the null value.
\<close>

definition SAPIExecuteEndpoint ::
  "Env \<Rightarrow> HTTPRequest \<Rightarrow> path_params \<Rightarrow> Endpoint \<Rightarrow> bool \<times> HTTPRequest" where
  "SAPIExecuteEndpoint env req mapPathParams endpoint =
     (case SAPIValidateBody env req endpoint UvNull of
        (ok, req', bodyParameter) \<Rightarrow>
          if \<not> ok then (False, req')
          else handler endpoint req' mapPathParams bodyParameter)"


section \<open>The server's life cycle\<close>

text \<open>
  The globals of lines 83 to 87 and line 377, and the objects behind them. A pointer is
  \<open>None\<close> when it is 0, else the address it holds; \<open>live\<close> holds the addresses of the objects
  that are allocated and not yet freed. Using or freeing an object that is not live is a
  fault.
\<close>

datatype fault = UseAfterFree | DoubleFree

record Server =
  workQueue_ptr :: "nat option"
  eventBaseSAPI :: "nat option"
  eventSAPI :: "nat option"
  threadSAPI_started :: bool
  live :: "nat set"

definition Server_initial :: Server where
  "Server_initial =
     \<lparr>workQueue_ptr = None, eventBaseSAPI = None, eventSAPI = None,
      threadSAPI_started = False, live = {}\<rparr>"

definition release :: "nat \<Rightarrow> Server \<Rightarrow> fault + Server" where
  "release a s = (if a \<in> live s then Inr (s\<lparr>live := live s - {a}\<rparr>) else Inl DoubleFree)"

text \<open>
  \<open>InitSAPIServer\<close>, lines 317 to 375. \<open>base\<close> and \<open>sapi\<close> are what \<open>event_base_new\<close> and
  \<open>evhttp_new\<close> return (\<open>None\<close> for 0), \<open>bound\<close> is the result of \<open>SAPIBindAddresses\<close>, and \<open>wq\<close>
  is the address of the new work queue. A call that fails frees what it allocated and
  leaves the globals as they were.
\<close>

definition InitSAPIServer ::
  "nat option \<Rightarrow> nat option \<Rightarrow> bool \<Rightarrow> nat \<Rightarrow> Server \<Rightarrow> bool \<times> Server" where
  "InitSAPIServer base sapi bound wq s =
     (case base of
        None \<Rightarrow> (False, s)
      | Some b \<Rightarrow>
          (case sapi of
             None \<Rightarrow> (False, s)
           | Some h \<Rightarrow>
               if \<not> bound then (False, s)
               else (True, s\<lparr>workQueue_ptr := Some wq, eventBaseSAPI := Some b,
                              eventSAPI := Some h, live := live s \<union> {b, h, wq}\<rparr>)))"

text \<open>\<open>StartSAPIServer\<close>, lines 379 to 389: the event thread is started.\<close>

definition StartSAPIServer :: "Server \<Rightarrow> bool \<times> Server" where
  "StartSAPIServer s = (True, s\<lparr>threadSAPI_started := True\<rparr>)"

text \<open>
  \<open>StopSAPIServer\<close>, lines 406 to 441, in its four steps. Line 411 calls \<open>WaitExit\<close> on the
  object \<open>workQueue\<close> points to and line 412 deletes it; the pointer keeps its value. Lines
  414 to 431 join the event thread. Lines 432 to 439 free the two libevent objects and set
  their pointers to 0.
\<close>

definition stop_workQueue :: "Server \<Rightarrow> fault + Server" where
  "stop_workQueue s =
     (case workQueue_ptr s of
        None \<Rightarrow> Inr s
      | Some q \<Rightarrow> if q \<in> live s then release q s else Inl UseAfterFree)"

definition stop_thread :: "Server \<Rightarrow> fault + Server" where
  "stop_thread s =
     (case eventBaseSAPI s of
        None \<Rightarrow> Inr s
      | Some b \<Rightarrow> Inr (s\<lparr>threadSAPI_started := False\<rparr>))"

definition stop_eventSAPI :: "Server \<Rightarrow> fault + Server" where
  "stop_eventSAPI s =
     (case eventSAPI s of
        None \<Rightarrow> Inr s
      | Some h \<Rightarrow> (case release h s of Inl f \<Rightarrow> Inl f | Inr s' \<Rightarrow> Inr (s'\<lparr>eventSAPI := None\<rparr>)))"

definition stop_eventBase :: "Server \<Rightarrow> fault + Server" where
  "stop_eventBase s =
     (case eventBaseSAPI s of
        None \<Rightarrow> Inr s
      | Some b \<Rightarrow>
          (case release b s of Inl f \<Rightarrow> Inl f | Inr s' \<Rightarrow> Inr (s'\<lparr>eventBaseSAPI := None\<rparr>)))"

definition then_do :: "fault + Server \<Rightarrow> (Server \<Rightarrow> fault + Server) \<Rightarrow> fault + Server" where
  "then_do r f = (case r of Inl e \<Rightarrow> Inl e | Inr s \<Rightarrow> f s)"

definition StopSAPIServer :: "Server \<Rightarrow> fault + Server" where
  "StopSAPIServer s =
     then_do (then_do (then_do (stop_workQueue s) stop_thread) stop_eventSAPI) stop_eventBase"

section \<open>Example data\<close>

text \<open>
  The scenario of the spec (section 8): the group \<open>addr\<close> with the endpoint
  \<open>GET {address}/balance\<close>, a node that is past its warm-up, and requests from a valid peer
  address. \<open>ex_root\<close> is an endpoint with the empty path, the root of its group.
\<close>

definition ex_env :: Env where
  "ex_env = \<lparr>warmup = None, CLIENT_NAME = ''SmartCash'', strClientVersion = ''v1.3'',
              uv_read = (\<lambda>s. None)\<rparr>"

definition ex_request :: "RequestMethod \<Rightarrow> string \<Rightarrow> HTTPRequest" where
  "ex_request m u =
     \<lparr>reqMethod = m, reqURI = u, peerValid = True, inBody = [], bodyReads = 0,
      outHeaders = [], reply = None\<rparr>"

definition ex_balance :: Endpoint where
  "ex_balance =
     \<lparr>addr = 0, path = ''{address}/balance'', endpoint_method = GET, bodyRoot = VNULL,
      vecBodyParameter = [], handler = (\<lambda>req params body. (True, req))\<rparr>"

definition ex_root :: Endpoint where
  "ex_root =
     \<lparr>addr = 0, path = [], endpoint_method = GET, bodyRoot = VNULL,
      vecBodyParameter = [], handler = (\<lambda>req params body. (True, req))\<rparr>"

definition ex_queue :: "SAPIWorkItem WorkQueue" where
  "ex_queue = \<lparr>running = True, maxDepth = 16, queue = []\<rparr>"

text \<open>
  A body schema with three required keys and an optional one, whose validators accept
  every value of their kind, and a body that holds only the key \<open>count\<close>, as a string.
\<close>

definition ex_validator :: "VType \<Rightarrow> Validator" where
  "ex_validator t = \<lparr>GetType = t, Validate = (\<lambda>k v. Result_default)\<rparr>"

definition ex_schema :: "BodyParameter list" where
  "ex_schema =
     [\<lparr>key = ''from'', optional = False, validator = ex_validator VSTR\<rparr>,
      \<lparr>key = ''to'', optional = False, validator = ex_validator VSTR\<rparr>,
      \<lparr>key = ''count'', optional = False, validator = ex_validator VNUM\<rparr>,
      \<lparr>key = ''page'', optional = True, validator = ex_validator VNUM\<rparr>]"


definition ex_post :: Endpoint where
  "ex_post =
     \<lparr>addr = 1, path = ''list'', endpoint_method = POST, bodyRoot = VOBJ,
      vecBodyParameter = ex_schema, handler = (\<lambda>req params body. (True, req))\<rparr>"

definition ex_groups :: "EndpointGroup list" where
  "ex_groups = [\<lparr>prefix = ''addr'', endpoints = [ex_balance, ex_post]\<rparr>]"

section \<open>Properties of the path matcher\<close>

lemma is_param_Nil [simp]: "\<not> is_param []"
  by (simp add: is_param_def)

lemma match_loop_unfold:
  "match_loop pu pe i m =
     (if i < length pu then
        (if is_param (seg_at pe i) then
           match_loop pu pe (Suc i) (map_insert (param_key (seg_at pe i)) (pu ! i) m)
         else if pu ! i = seg_at pe i then match_loop pu pe (Suc i) m
         else None)
      else Some m)"
  by (subst match_loop.simps) (simp add: Let_def seg_at_def)

lemma match_loop_decides:
  "(match_loop pu pe i m \<noteq> None) =
     (\<forall>j. i \<le> j \<and> j < length pu \<longrightarrow> is_param (seg_at pe j) \<or> pu ! j = seg_at pe j)"
proof (induction "length pu - i" arbitrary: i m)
  case 0
  then show ?case by (subst match_loop_unfold) auto
next
  case (Suc n)
  then have lt: "i < length pu" and n: "n = length pu - Suc i" by simp_all
  have split: "\<And>P. (\<forall>j. i \<le> j \<and> j < length pu \<longrightarrow> P j) = (P i \<and> (\<forall>j. Suc i \<le> j \<and> j < length pu \<longrightarrow> P j))"
    using lt by (metis Suc_leD Suc_le_eq le_eq_less_or_eq)
  show ?case
    by (subst match_loop_unfold, subst split) (simp add: lt Suc.hyps(1)[OF n] del: not_None_eq)
qed

lemma match_loop_params:
  "match_loop pu pe i m = Some m' \<Longrightarrow>
   m' k = (case m k of
             Some v \<Rightarrow> Some v
           | None \<Rightarrow> map_option (\<lambda>j. pu ! j)
                      (find (\<lambda>j. is_param (seg_at pe j) \<and> param_key (seg_at pe j) = k)
                            [i..<length pu]))"
proof (induction "length pu - i" arbitrary: i m)
  case 0
  then show ?case by (subst (asm) match_loop_unfold) (simp split: option.splits)
next
  case (Suc n)
  then have lt: "i < length pu" and n: "n = length pu - Suc i" by simp_all
  note IH = Suc.hyps(1)[OF n]
  from Suc.prems lt show ?case
    by (subst (asm) match_loop_unfold)
       (auto simp: upt_conv_Cons map_insert_def dest!: IH split: if_splits option.splits)
qed

lemma is_param_seg_at: "is_param (seg_at pe j) \<Longrightarrow> j < length pe \<and> seg_at pe j = pe ! j"
  by (cases "j < length pe") (simp_all add: seg_at_def)

lemma match_loop_positions:
  assumes len: "length pu = length pe \<or> (length pu = length pe + 1 \<and> last pu = [])"
  shows "(\<forall>j. 0 \<le> j \<and> j < length pu \<longrightarrow> is_param (seg_at pe j) \<or> pu ! j = seg_at pe j)
         = (\<forall>i<length pe. is_param (pe ! i) \<or> pu ! i = pe ! i)"
proof -
  have extra: "pu ! j = seg_at pe j" if "j < length pu" "\<not> j < length pe" for j
  proof -
    from that len have "j = length pe" "length pu = length pe + 1" "last pu = []" by auto
    moreover from this have "pu \<noteq> []" by auto
    ultimately show ?thesis by (simp add: seg_at_def last_conv_nth)
  qed
  have le: "length pe \<le> length pu" using len by auto
  show ?thesis
  proof
    assume L: "\<forall>j. 0 \<le> j \<and> j < length pu \<longrightarrow> is_param (seg_at pe j) \<or> pu ! j = seg_at pe j"
    show "\<forall>i<length pe. is_param (pe ! i) \<or> pu ! i = pe ! i"
    proof (intro allI impI)
      fix i assume "i < length pe"
      with L le show "is_param (pe ! i) \<or> pu ! i = pe ! i"
        by (auto simp: seg_at_def dest!: spec[where x = i])
    qed
  next
    assume R: "\<forall>i<length pe. is_param (pe ! i) \<or> pu ! i = pe ! i"
    show "\<forall>j. 0 \<le> j \<and> j < length pu \<longrightarrow> is_param (seg_at pe j) \<or> pu ! j = seg_at pe j"
    proof (intro allI impI)
      fix j assume j: "0 \<le> j \<and> j < length pu"
      show "is_param (seg_at pe j) \<or> pu ! j = seg_at pe j"
      proof (cases "j < length pe")
        case True
        with R show ?thesis by (simp add: seg_at_def)
      next
        case False
        with j extra show ?thesis by simp
      qed
    qed
  qed
qed

lemma find_upt_first:
  assumes "i < n" "P i" "\<forall>j<i. \<not> P j"
  shows "find P [0..<n] = Some i"
proof -
  have "\<exists>k<length [0..<n]. P ([0..<n] ! k) \<and> i = [0..<n] ! k \<and> (\<forall>j<k. \<not> P ([0..<n] ! j))"
    using assms by (intro exI[where x = i]) auto
  then show ?thesis by (simp only: find_Some_iff)
qed


lemma match_endpoint_decides:
  assumes ne: "partsEndpoint \<noteq> []"
  shows "(match_endpoint partsURI partsEndpoint \<noteq> None) =
      ((length partsURI = length partsEndpoint
          \<or> (length partsURI = length partsEndpoint + 1 \<and> last partsURI = []))
       \<and> (\<forall>i<length partsEndpoint.
             is_param (partsEndpoint ! i) \<or> partsURI ! i = partsEndpoint ! i))"
proof (cases "length partsURI = length partsEndpoint
          \<or> (length partsURI = length partsEndpoint + 1 \<and> last partsURI = [])")
  case True
  then have "(length partsURI = length partsEndpoint + 1 \<and> last partsURI = [])
              \<or> length partsURI = length partsEndpoint" by blast
  then have eq: "match_endpoint partsURI partsEndpoint
                  = match_loop partsURI partsEndpoint 0 Map.empty"
    unfolding match_endpoint_def using ne by (simp only: if_P if_False)
  have "(match_loop partsURI partsEndpoint 0 Map.empty \<noteq> None) =
        (\<forall>i<length partsEndpoint. is_param (partsEndpoint ! i) \<or> partsURI ! i = partsEndpoint ! i)"
    by (simp only: match_loop_decides match_loop_positions[OF True])
  with True eq show ?thesis by metis
next
  case False
  then have "\<not> ((length partsURI = length partsEndpoint + 1 \<and> last partsURI = [])
              \<or> length partsURI = length partsEndpoint)" by blast
  then have "match_endpoint partsURI partsEndpoint = None"
    unfolding match_endpoint_def using ne by (simp only: if_False)
  with False show ?thesis by blast
qed

lemma match_endpoint_value:
  assumes ne: "partsEndpoint \<noteq> []"
    and M: "match_endpoint partsURI partsEndpoint = Some m"
  shows "length partsEndpoint \<le> length partsURI"
    and "m k = map_option (\<lambda>j. partsURI ! j)
      (find (\<lambda>j. is_param (seg_at partsEndpoint j) \<and> param_key (seg_at partsEndpoint j) = k)
         [0..<length partsURI])"
proof -
  have c: "(length partsURI = length partsEndpoint + 1 \<and> last partsURI = [])
              \<or> length partsURI = length partsEndpoint"
    using M ne unfolding match_endpoint_def by (simp split: if_splits)
  then show "length partsEndpoint \<le> length partsURI" by auto
  from c have "match_endpoint partsURI partsEndpoint
                  = match_loop partsURI partsEndpoint 0 Map.empty"
    unfolding match_endpoint_def using ne by (simp only: if_P if_False)
  with M have loop: "match_loop partsURI partsEndpoint 0 Map.empty = Some m" by simp
  show "m k = map_option (\<lambda>j. partsURI ! j)
      (find (\<lambda>j. is_param (seg_at partsEndpoint j) \<and> param_key (seg_at partsEndpoint j) = k)
         [0..<length partsURI])"
    using match_loop_params[OF loop, of k] by simp
qed

lemma match_endpoint_dom:
  assumes ne: "partsEndpoint \<noteq> []"
    and M: "match_endpoint partsURI partsEndpoint = Some m"
  shows "dom m = {param_key (partsEndpoint ! i) |i.
                    i < length partsEndpoint \<and> is_param (partsEndpoint ! i)}"
proof (intro set_eqI iffI)
  note le = match_endpoint_value(1)[OF ne M]
  note val = match_endpoint_value(2)[OF ne M]
  {
    fix k assume "k \<in> dom m"
    then have "m k \<noteq> None" by (simp add: dom_def)
    then have "find (\<lambda>j. is_param (seg_at partsEndpoint j) \<and> param_key (seg_at partsEndpoint j) = k)
         [0..<length partsURI] \<noteq> None"
      by (simp add: val[of k] del: not_None_eq)
    then obtain j where "j < length partsURI" "is_param (seg_at partsEndpoint j)"
        "param_key (seg_at partsEndpoint j) = k"
      unfolding find_None_iff by auto
    then show "k \<in> {param_key (partsEndpoint ! i) |i.
                    i < length partsEndpoint \<and> is_param (partsEndpoint ! i)}"
      using is_param_seg_at[of partsEndpoint j] by auto
  next
    fix k assume "k \<in> {param_key (partsEndpoint ! i) |i.
                    i < length partsEndpoint \<and> is_param (partsEndpoint ! i)}"
    then obtain i where i: "i < length partsEndpoint" "is_param (partsEndpoint ! i)"
        "k = param_key (partsEndpoint ! i)" by auto
    then have "i \<in> set [0..<length partsURI]"
      and "is_param (seg_at partsEndpoint i) \<and> param_key (seg_at partsEndpoint i) = k"
      using le by (simp_all add: seg_at_def)
    then have "find (\<lambda>j. is_param (seg_at partsEndpoint j) \<and> param_key (seg_at partsEndpoint j) = k)
         [0..<length partsURI] \<noteq> None"
      unfolding find_None_iff by blast
    then have "m k \<noteq> None" by (simp add: val[of k] del: not_None_eq)
    then show "k \<in> dom m" by (simp add: dom_def)
  }
qed

lemma match_endpoint_first:
  assumes ne: "partsEndpoint \<noteq> []"
    and M: "match_endpoint partsURI partsEndpoint = Some m"
    and i: "i < length partsEndpoint"
    and P: "is_param (partsEndpoint ! i)"
    and F: "\<forall>j<i. is_param (partsEndpoint ! j) \<longrightarrow>
                           param_key (partsEndpoint ! j) \<noteq> param_key (partsEndpoint ! i)"
  shows "m (param_key (partsEndpoint ! i)) = Some (partsURI ! i)"
proof -
  note le = match_endpoint_value(1)[OF ne M]
  have "find (\<lambda>j. is_param (seg_at partsEndpoint j)
                 \<and> param_key (seg_at partsEndpoint j) = param_key (partsEndpoint ! i))
          [0..<length partsURI] = Some i"
  proof (rule find_upt_first)
    show "i < length partsURI" using i le by simp
    show "is_param (seg_at partsEndpoint i) \<and>
          param_key (seg_at partsEndpoint i) = param_key (partsEndpoint ! i)"
      using i P by (simp add: seg_at_def)
    show "\<forall>j<i. \<not> (is_param (seg_at partsEndpoint j) \<and>
            param_key (seg_at partsEndpoint j) = param_key (partsEndpoint ! i))"
      using i F by (simp add: seg_at_def)
  qed
  then show ?thesis
    unfolding match_endpoint_value(2)[OF ne M, of "param_key (partsEndpoint ! i)"] by simp
qed

text \<open>
  Claim C1, as amended. For a template with at least one segment and any list of request
  segments after the group: the endpoint is entered into the match set exactly when the
  request has as many segments as the template, or one more with the last one empty, and at
  every position of the template the segment is a placeholder or equals the request's
  segment. On a match, the keys of the parameter map are exactly the placeholder names
  (braces stripped), and a name is valued by the request's segment at the first position
  that carries it; when the placeholder names are pairwise distinct this is one entry per
  placeholder position.
\<close>

theorem match_endpoint_spec:
  "partsEndpoint \<noteq> [] \<Longrightarrow>
   ((match_endpoint partsURI partsEndpoint \<noteq> None) =
      ((length partsURI = length partsEndpoint
          \<or> (length partsURI = length partsEndpoint + 1 \<and> last partsURI = []))
       \<and> (\<forall>i<length partsEndpoint.
             is_param (partsEndpoint ! i) \<or> partsURI ! i = partsEndpoint ! i)))
   \<and> (\<forall>m. match_endpoint partsURI partsEndpoint = Some m \<longrightarrow>
         dom m = {param_key (partsEndpoint ! i) |i.
                    i < length partsEndpoint \<and> is_param (partsEndpoint ! i)}
         \<and> (\<forall>i<length partsEndpoint.
               is_param (partsEndpoint ! i)
               \<and> (\<forall>j<i. is_param (partsEndpoint ! j) \<longrightarrow>
                           param_key (partsEndpoint ! j) \<noteq> param_key (partsEndpoint ! i))
               \<longrightarrow> m (param_key (partsEndpoint ! i)) = Some (partsURI ! i)))"
proof (intro conjI allI impI)
  assume ne: "partsEndpoint \<noteq> []"
  show "(match_endpoint partsURI partsEndpoint \<noteq> None) =
      ((length partsURI = length partsEndpoint
          \<or> (length partsURI = length partsEndpoint + 1 \<and> last partsURI = []))
       \<and> (\<forall>i<length partsEndpoint.
             is_param (partsEndpoint ! i) \<or> partsURI ! i = partsEndpoint ! i))"
    by (rule match_endpoint_decides[OF ne])
next
  fix m
  assume ne: "partsEndpoint \<noteq> []" and M: "match_endpoint partsURI partsEndpoint = Some m"
  show "dom m = {param_key (partsEndpoint ! i) |i.
                    i < length partsEndpoint \<and> is_param (partsEndpoint ! i)}"
    by (rule match_endpoint_dom[OF ne M])
next
  fix m i
  assume ne: "partsEndpoint \<noteq> []" and M: "match_endpoint partsURI partsEndpoint = Some m"
    and i: "i < length partsEndpoint"
    and P: "is_param (partsEndpoint ! i)
               \<and> (\<forall>j<i. is_param (partsEndpoint ! j) \<longrightarrow>
                           param_key (partsEndpoint ! j) \<noteq> param_key (partsEndpoint ! i))"
  show "m (param_key (partsEndpoint ! i)) = Some (partsURI ! i)"
    using match_endpoint_first[OF ne M i] P by blast
qed

theorem match_endpoint_spec_witness:
  "[''{address}'', ''balance''] \<noteq> []
   \<and> match_endpoint [''ABC123'', ''balance''] [''{address}'', ''balance''] \<noteq> None
   \<and> (\<exists>m. match_endpoint [''ABC123'', ''balance''] [''{address}'', ''balance''] = Some m
          \<and> dom m = {''address''} \<and> m ''address'' = Some ''ABC123'')"
proof -
  let ?T = "[''{address}'', ''balance'']"
  let ?U = "[''ABC123'', ''balance'']"
  have ne: "?T \<noteq> []" by simp
  note spec = match_endpoint_spec[OF ne, of ?U]
  have pos: "\<forall>i<length ?T. is_param (?T ! i) \<or> ?U ! i = ?T ! i"
    by (simp add: is_param_def All_less_Suc)
  from spec pos have some: "match_endpoint ?U ?T \<noteq> None" by simp
  then obtain m where m: "match_endpoint ?U ?T = Some m" by blast
  from spec m have d: "dom m = {param_key (?T ! i) |i. i < length ?T \<and> is_param (?T ! i)}"
    and v: "\<forall>i<length ?T. is_param (?T ! i)
               \<and> (\<forall>j<i. is_param (?T ! j) \<longrightarrow> param_key (?T ! j) \<noteq> param_key (?T ! i))
               \<longrightarrow> m (param_key (?T ! i)) = Some (?U ! i)"
    by blast+
  have idx: "{i. i < length ?T \<and> is_param (?T ! i)} = {0}"
    by (auto simp: is_param_def less_Suc_eq)
  have "{param_key (?T ! i) |i. i < length ?T \<and> is_param (?T ! i)}
          = (\<lambda>i. param_key (?T ! i)) ` {i. i < length ?T \<and> is_param (?T ! i)}"
    by blast
  also have "\<dots> = {''address''}"
    unfolding idx by (simp add: param_key_def)
  finally have "{param_key (?T ! i) |i. i < length ?T \<and> is_param (?T ! i)} = {''address''}" .
  with d have d': "dom m = {''address''}" by simp
  have p0: "(0::nat) < length ?T \<and> is_param (?T ! 0)
               \<and> (\<forall>j<0. is_param (?T ! j) \<longrightarrow> param_key (?T ! j) \<noteq> param_key (?T ! 0))"
    by (simp add: is_param_def)
  with v have "m (param_key (?T ! 0)) = Some (?U ! 0)"
    by blast
  then have v': "m ''address'' = Some ''ABC123''" by (simp add: param_key_def)
  from ne some m d' v' show ?thesis by blast
qed

text \<open>
  Claim C1 as stated fails where two placeholders carry one name: the template
  \<open>{a}/{a}\<close> matches \<open>x/y\<close> with the single entry \<open>a \<mapsto> x\<close>, so position 1 is a placeholder
  position whose segment \<open>y\<close> is not in the map.
\<close>

theorem match_endpoint_duplicate_name_counterexample:
  "match_endpoint [''x'', ''y''] [''{a}'', ''{a}''] = Some [''a'' \<mapsto> ''x'']
   \<and> is_param ([''{a}'', ''{a}''] ! 1)
   \<and> [''a'' \<mapsto> ''x''] (param_key ([''{a}'', ''{a}''] ! 1)) \<noteq> Some ([''x'', ''y''] ! 1)"
  by (simp add: match_endpoint_def match_loop_unfold seg_at_def is_param_def param_key_def
        map_insert_def)

text \<open>
  Claim C10. The placeholder test holds only for a segment whose first character is \<open>{\<close>
  and whose last character is \<open>}\<close>. For the one-character segments \<open>{\<close> and \<open>}\<close> one of the
  two comparisons fails, so the segment is not a placeholder: a template made of it matches
  the request segment equal to it (with or without a trailing empty segment) and nothing
  else, and the match has no parameter.
\<close>

theorem one_char_brace_is_literal:
  "(is_param t = (t \<noteq> [] \<and> hd t = CHR ''{'' \<and> last t = CHR ''}''))
   \<and> (s = ''{'' \<or> s = ''}'' \<longrightarrow>
        \<not> (hd s = CHR ''{'' \<and> last s = CHR ''}'')
        \<and> \<not> is_param s
        \<and> match_endpoint partsURI [s]
            = (if partsURI = [s] \<or> partsURI = [s, []] then Some Map.empty else None))"
proof (intro conjI impI)
  show "is_param t = (t \<noteq> [] \<and> hd t = CHR ''{'' \<and> last t = CHR ''}'')"
    by (cases t) (simp_all add: is_param_def)
next
  assume s: "s = ''{'' \<or> s = ''}''"
  then show "\<not> (hd s = CHR ''{'' \<and> last s = CHR ''}'')" by auto
  from s show np: "\<not> is_param s" by (auto simp: is_param_def)
  show "match_endpoint partsURI [s]
            = (if partsURI = [s] \<or> partsURI = [s, []] then Some Map.empty else None)"
  proof (cases partsURI)
    case Nil
    then show ?thesis by (simp add: match_endpoint_def)
  next
    case (Cons a as)
    note outer = Cons
    show ?thesis
    proof (cases as)
      case Nil
      with outer np show ?thesis
        by (simp add: match_endpoint_def match_loop_unfold seg_at_def)
    next
      case (Cons b bs)
      with outer np show ?thesis
        by (cases bs) (auto simp: match_endpoint_def match_loop_unfold seg_at_def)
    qed
  qed
qed

theorem one_char_brace_is_literal_witness:
  "(''{'' = ''{'' \<or> ''{'' = ''}'')
   \<and> \<not> is_param ''{''
   \<and> match_endpoint [''{''] [''{''] = Some Map.empty
   \<and> match_endpoint [''x''] [''{''] = None"
  using one_char_brace_is_literal[of "''{''" "''{''" "[''{'']"]
        one_char_brace_is_literal[of "''{''" "''{''" "[''x'']"]
  by simp

section \<open>Properties of the work queue\<close>

lemma Enqueue_all_fits:
  "running wq \<Longrightarrow> length (queue wq) + length items \<le> maxDepth wq \<Longrightarrow>
   Enqueue_all wq items = (replicate (length items) True, wq\<lparr>queue := queue wq @ items\<rparr>)"
proof (induction items arbitrary: wq)
  case Nil
  then show ?case by simp
next
  case (Cons item items)
  let ?wq' = "wq\<lparr>queue := queue wq @ [item]\<rparr>"
  from Cons.prems have step: "Enqueue wq item = (True, ?wq')"
    by (simp add: Enqueue_def)
  from Cons.prems have "running ?wq'" "length (queue ?wq') + length items \<le> maxDepth ?wq'"
    by simp_all
  from Cons.IH[OF this] step show ?case by simp
qed

text \<open>
  Claim C4, on the queue as the spec describes it. \<open>Enqueue\<close> returns true and appends the
  item exactly when the queue is running and holds fewer than \<open>maxDepth\<close> items; otherwise
  it returns false and the queue is as before. Onto an empty running queue, \<open>maxDepth\<close>
  enqueues in a row all succeed, and one more fails while the \<open>maxDepth\<close> items are all still
  queued.
\<close>

theorem Enqueue_capacity:
  "Enqueue wq item =
     (if running wq \<and> length (queue wq) < maxDepth wq
      then (True, wq\<lparr>queue := queue wq @ [item]\<rparr>) else (False, wq))
   \<and> (running wq \<and> queue wq = [] \<and> length items = maxDepth wq \<longrightarrow>
        Enqueue_all wq items = (replicate (maxDepth wq) True, wq\<lparr>queue := items\<rparr>)
        \<and> Enqueue (wq\<lparr>queue := items\<rparr>) extra = (False, wq\<lparr>queue := items\<rparr>))"
proof (intro conjI impI)
  show "Enqueue wq item =
     (if running wq \<and> length (queue wq) < maxDepth wq
      then (True, wq\<lparr>queue := queue wq @ [item]\<rparr>) else (False, wq))"
    by (simp add: Enqueue_def)
next
  assume a: "running wq \<and> queue wq = [] \<and> length items = maxDepth wq"
  then show "Enqueue_all wq items = (replicate (maxDepth wq) True, wq\<lparr>queue := items\<rparr>)"
    using Enqueue_all_fits[of wq items] by simp
  from a show "Enqueue (wq\<lparr>queue := items\<rparr>) extra = (False, wq\<lparr>queue := items\<rparr>)"
    by (simp add: Enqueue_def)
qed

theorem Enqueue_capacity_witness:
  "Enqueue \<lparr>running = True, maxDepth = 2, queue = []\<rparr> (1::nat)
     = (True, \<lparr>running = True, maxDepth = 2, queue = [1]\<rparr>)
   \<and> Enqueue \<lparr>running = False, maxDepth = 2, queue = []\<rparr> (1::nat)
     = (False, \<lparr>running = False, maxDepth = 2, queue = []\<rparr>)
   \<and> Enqueue_all \<lparr>running = True, maxDepth = 2, queue = []\<rparr> [1, 2::nat]
     = ([True, True], \<lparr>running = True, maxDepth = 2, queue = [1, 2]\<rparr>)
   \<and> Enqueue \<lparr>running = True, maxDepth = 2, queue = [1, 2::nat]\<rparr> 3
     = (False, \<lparr>running = True, maxDepth = 2, queue = [1, 2]\<rparr>)"
proof -
  let ?wq = "\<lparr>running = True, maxDepth = 2, queue = ([]::nat list)\<rparr>"
  let ?off = "\<lparr>running = False, maxDepth = 2, queue = ([]::nat list)\<rparr>"
  note on = Enqueue_capacity[of ?wq 1 "[1, 2]" 3]
  note off = Enqueue_capacity[of ?off 1 "[]" 3]
  have pre: "running ?wq \<and> queue ?wq = [] \<and> length [1, 2::nat] = maxDepth ?wq" by simp
  from on have a: "Enqueue ?wq 1 = (True, ?wq\<lparr>queue := queue ?wq @ [1]\<rparr>)" by simp
  from off have b: "Enqueue ?off 1 = (False, ?off)" by simp
  from on pre have c: "Enqueue_all ?wq [1, 2] = (replicate (maxDepth ?wq) True, ?wq\<lparr>queue := [1, 2]\<rparr>)"
    and d: "Enqueue (?wq\<lparr>queue := [1, 2]\<rparr>) 3 = (False, ?wq\<lparr>queue := [1, 2]\<rparr>)"
    by blast+
  have r: "replicate (maxDepth ?wq) True = [True, True]" by (simp add: numeral_2_eq_2)
  from a b c d r show ?thesis by simp
qed

section \<open>Properties of the request callback\<close>

lemma Error_message_reply:
  "snd (Error_message env req status msg) =
     req\<lparr>outHeaders := outHeaders req @
            [(''User-Agent'', CLIENT_NAME env),
             (''Client-Version'', strClientVersion env),
             (''SAPI-Version'', ''1.0''),
             (''Access-Control-Allow-Origin'', ''*''),
             (''Content-Type'', ''application/json'')],
         reply := Some (status, ErrorArrayBody [\<lparr>code = Undefined, message = msg\<rparr>])\<rparr>"
  by (simp add: Error_message_def Error_results_def AddDefaultHeaders_def WriteHeader_def
        WriteReplyRaw_def versionString_def)

text \<open>
  Claim C8. The checks of the callback come in a fixed order, and each rejection is the
  whole result, whatever the later checks would say, whatever the registry holds, and with
  the work queue untouched: warm-up gives 503; else an invalid peer address gives 403; else
  an unparsed verb gives 405; else a URI that does not start with \<open>/v1\<close> gives 404 naming the
  API version; else a URI with nothing after \<open>/v1\<close> gives 404.
\<close>

theorem admission_order:
  "(warmup env = Some msg \<longrightarrow>
      sapi_request_cb env endpointGroups workQueue hreq =
        (Answered (snd (Error_message env hreq 503
           (''Service temporarily unavailable: '' @ msg))), workQueue))
   \<and> (warmup env = None \<and> \<not> peerValid hreq \<longrightarrow>
      sapi_request_cb env endpointGroups workQueue hreq =
        (Answered (snd (Error_message env hreq 403 ''Access forbidden'')), workQueue))
   \<and> (warmup env = None \<and> peerValid hreq \<and> reqMethod hreq = UNKNOWN \<longrightarrow>
      sapi_request_cb env endpointGroups workQueue hreq =
        (Answered (snd (Error_message env hreq 405 ''Invalid method'')), workQueue))
   \<and> (warmup env = None \<and> peerValid hreq \<and> reqMethod hreq \<noteq> UNKNOWN
        \<and> take 3 (reqURI hreq) \<noteq> ''/v1'' \<longrightarrow>
      sapi_request_cb env endpointGroups workQueue hreq =
        (Answered (snd (Error_message env hreq 404
           ''Invalid api version. Use: <host>/v1/<endpoint>'')), workQueue))
   \<and> (warmup env = None \<and> peerValid hreq \<and> reqMethod hreq \<noteq> UNKNOWN
        \<and> reqURI hreq = ''/v1'' \<longrightarrow>
      sapi_request_cb env endpointGroups workQueue hreq =
        (Answered (snd (Error_message env hreq 404
           ''Endpoint missing. Use: <host>/v1/<endpoint>'')), workQueue))"
  by (simp add: sapi_request_cb_def CheckWarmup_def ClientAllowed_def versionSubPath_def
        Error_message_def Error_results_def HTTP_SERVICE_UNAVAILABLE_def HTTP_FORBIDDEN_def
        HTTP_BAD_METHOD_def HTTP_NOT_FOUND_def Let_def numeral_3_eq_3)

theorem admission_order_witness:
  "outcome_reply (fst (sapi_request_cb (ex_env\<lparr>warmup := Some ''Loading block index...''\<rparr>)
       [] None (ex_request GET ''/v1/addr/ABC123/balance'')))
     = Some (503, ErrorArrayBody [\<lparr>code = Undefined,
          message = ''Service temporarily unavailable: Loading block index...''\<rparr>])
   \<and> outcome_reply (fst (sapi_request_cb ex_env [] None
       ((ex_request GET ''/v1/addr/ABC123/balance'')\<lparr>peerValid := False\<rparr>)))
     = Some (403, ErrorArrayBody [\<lparr>code = Undefined, message = ''Access forbidden''\<rparr>])
   \<and> outcome_reply (fst (sapi_request_cb ex_env [] None
       (ex_request UNKNOWN ''/v1/addr/ABC123/balance'')))
     = Some (405, ErrorArrayBody [\<lparr>code = Undefined, message = ''Invalid method''\<rparr>])
   \<and> outcome_reply (fst (sapi_request_cb ex_env [] None (ex_request GET ''/v2/xyz/balance'')))
     = Some (404, ErrorArrayBody [\<lparr>code = Undefined,
          message = ''Invalid api version. Use: <host>/v1/<endpoint>''\<rparr>])
   \<and> outcome_reply (fst (sapi_request_cb ex_env [] None (ex_request GET ''/v1'')))
     = Some (404, ErrorArrayBody [\<lparr>code = Undefined,
          message = ''Endpoint missing. Use: <host>/v1/<endpoint>''\<rparr>])"
proof -
  let ?warm = "ex_env\<lparr>warmup := Some ''Loading block index...''\<rparr>"
  let ?r = "ex_request GET ''/v1/addr/ABC123/balance''"
  have h1: "warmup ?warm = Some ''Loading block index...''" by (simp add: ex_env_def)
  have h2: "warmup ex_env = None \<and> \<not> peerValid (?r\<lparr>peerValid := False\<rparr>)"
    by (simp add: ex_env_def)
  have h3: "warmup ex_env = None \<and> peerValid (ex_request UNKNOWN ''/v1/addr/ABC123/balance'')
      \<and> reqMethod (ex_request UNKNOWN ''/v1/addr/ABC123/balance'') = UNKNOWN"
    by (simp add: ex_env_def ex_request_def)
  have h4: "warmup ex_env = None \<and> peerValid (ex_request GET ''/v2/xyz/balance'')
      \<and> reqMethod (ex_request GET ''/v2/xyz/balance'') \<noteq> UNKNOWN
      \<and> take 3 (reqURI (ex_request GET ''/v2/xyz/balance'')) \<noteq> ''/v1''"
    by (simp add: ex_env_def ex_request_def numeral_3_eq_3)
  have h5: "warmup ex_env = None \<and> peerValid (ex_request GET ''/v1'')
      \<and> reqMethod (ex_request GET ''/v1'') \<noteq> UNKNOWN
      \<and> reqURI (ex_request GET ''/v1'') = ''/v1''"
    by (simp add: ex_env_def ex_request_def)
  from admission_order[of ?warm "''Loading block index...''" "[]" None ?r] h1
  have 1: "sapi_request_cb ?warm [] None ?r =
        (Answered (snd (Error_message ?warm ?r 503
           (''Service temporarily unavailable: '' @ ''Loading block index...''))), None)"
    by blast
  from admission_order[of ex_env _ "[]" None "?r\<lparr>peerValid := False\<rparr>"] h2
  have 2: "sapi_request_cb ex_env [] None (?r\<lparr>peerValid := False\<rparr>) =
        (Answered (snd (Error_message ex_env (?r\<lparr>peerValid := False\<rparr>) 403 ''Access forbidden'')), None)"
    by blast
  from admission_order[of ex_env _ "[]" None "ex_request UNKNOWN ''/v1/addr/ABC123/balance''"] h3
  have 3: "sapi_request_cb ex_env [] None (ex_request UNKNOWN ''/v1/addr/ABC123/balance'') =
        (Answered (snd (Error_message ex_env (ex_request UNKNOWN ''/v1/addr/ABC123/balance'')
            405 ''Invalid method'')), None)"
    by blast
  from admission_order[of ex_env _ "[]" None "ex_request GET ''/v2/xyz/balance''"] h4
  have 4: "sapi_request_cb ex_env [] None (ex_request GET ''/v2/xyz/balance'') =
        (Answered (snd (Error_message ex_env (ex_request GET ''/v2/xyz/balance'') 404
           ''Invalid api version. Use: <host>/v1/<endpoint>'')), None)"
    by blast
  from admission_order[of ex_env _ "[]" None "ex_request GET ''/v1''"] h5
  have 5: "sapi_request_cb ex_env [] None (ex_request GET ''/v1'') =
        (Answered (snd (Error_message ex_env (ex_request GET ''/v1'') 404
           ''Endpoint missing. Use: <host>/v1/<endpoint>'')), None)"
    by blast
  show ?thesis
    unfolding 1 2 3 4 5
    by (simp add: outcome_reply_def Error_message_reply)
qed

lemma fold_append_concat:
  "fold (\<lambda>x acc. acc @ f x) xs acc = acc @ concat (map f xs)"
  by (induction xs arbitrary: acc) simp_all

lemma allowed_methods_concat:
  "allowed_methods ms =
     ''OPTIONS'' @ concat (map (\<lambda>entry. '', '' @ RequestMethodString (endpoint_method (fst entry))) ms)"
  by (simp add: allowed_methods_def fold_append_concat)

lemma sapi_request_cb_admitted:
  assumes "warmup env = None" "peerValid hreq" "reqMethod hreq \<noteq> UNKNOWN"
    and "reqURI hreq = ''/v1/'' @ rest"
  shows "sapi_request_cb env endpointGroups workQueue hreq
         = sapi_route env endpointGroups workQueue hreq (''/'' @ rest)"
  using assms
  by (simp add: sapi_request_cb_def CheckWarmup_def ClientAllowed_def versionSubPath_def Let_def)

lemma sapi_route_options:
  assumes "reqMethod hreq = OPTIONS"
    and "SplitPath rest = pathGroup # partsURI"
    and "path_match endpointGroups pathGroup partsURI \<noteq> []"
  shows "sapi_route env endpointGroups workQueue hreq (''/'' @ rest) =
     (Answered
        (hreq\<lparr>outHeaders := outHeaders hreq @
            [(''User-Agent'', CLIENT_NAME env),
             (''Client-Version'', strClientVersion env),
             (''SAPI-Version'', ''1.0''),
             (''Access-Control-Allow-Origin'', ''*''),
             (''Access-Control-Allow-Methods'',
                ''OPTIONS'' @ concat (map (\<lambda>entry. '', '' @ RequestMethodString (endpoint_method (fst entry)))
                                  (path_match endpointGroups pathGroup partsURI))),
             (''Access-Control-Allow-Headers'', ''Content-Type'')],
           reply := Some (200, PlainBody [])\<rparr>),
      workQueue)"
  using assms
  by (simp add: sapi_route_def Let_def allowed_methods_concat AddDefaultHeaders_def
        WriteHeader_def WriteReplyRaw_def versionString_def HTTP_OK_def)

lemma mapPathMatch_insert_set:
  "(\<forall>y\<in>set ms. addr (fst y) = addr (fst x) \<longrightarrow> y = x) \<Longrightarrow>
   set (mapPathMatch_insert x ms) = insert x (set ms)"
  by (induction ms) auto

lemma match_group_set:
  assumes inj: "inj_on addr U"
    and eps: "set eps \<subseteq> U"
    and acc: "\<forall>y\<in>set acc. fst y \<in> U \<and> match_endpoint pu (SplitPath (path (fst y))) = Some (snd y)"
  shows "set (match_group pu eps acc) =
           set acc \<union> {y. fst y \<in> set eps
                          \<and> match_endpoint pu (SplitPath (path (fst y))) = Some (snd y)}"
  using eps acc
proof (induction eps arbitrary: acc)
  case Nil
  then show ?case by (simp add: match_group_def)
next
  case (Cons e eps)
  let ?M = "\<lambda>e. match_endpoint pu (SplitPath (path e))"
  from Cons.prems have eU: "e \<in> U" and epsU: "set eps \<subseteq> U" by simp_all
  show ?case
  proof (cases "?M e")
    case None
    then have "match_group pu (e # eps) acc = match_group pu eps acc"
      by (simp add: match_group_def)
    then have "set (match_group pu (e # eps) acc) =
        set acc \<union> {y. fst y \<in> set eps \<and> ?M (fst y) = Some (snd y)}"
      using Cons.IH[OF epsU Cons.prems(2)] by simp
    moreover have "{y. fst y \<in> set (e # eps) \<and> ?M (fst y) = Some (snd y)}
        = {y. fst y \<in> set eps \<and> ?M (fst y) = Some (snd y)}"
      using None by auto
    ultimately show ?thesis by simp
  next
    case (Some m)
    have same: "\<forall>y\<in>set acc. addr (fst y) = addr (fst (e, m)) \<longrightarrow> y = (e, m)"
    proof (intro ballI impI)
      fix y assume y: "y \<in> set acc" and a: "addr (fst y) = addr (fst (e, m))"
      from Cons.prems(2) y have yU: "fst y \<in> U" and ym: "?M (fst y) = Some (snd y)"
        by blast+
      from a have "addr (fst y) = addr e" by simp
      from inj this yU eU have "fst y = e" by (rule inj_onD)
      with ym Some have "snd y = m" by simp
      with \<open>fst y = e\<close> show "y = (e, m)" by (simp add: prod_eq_iff)
    qed
    have ins: "set (mapPathMatch_insert (e, m) acc) = insert (e, m) (set acc)"
      by (rule mapPathMatch_insert_set[OF same])
    have inv: "\<forall>y\<in>set (mapPathMatch_insert (e, m) acc). fst y \<in> U \<and> ?M (fst y) = Some (snd y)"
      unfolding ins using Cons.prems(2) eU Some by simp
    from Some have "match_group pu (e # eps) acc
        = match_group pu eps (mapPathMatch_insert (e, m) acc)"
      by (simp add: match_group_def)
    then have "set (match_group pu (e # eps) acc) =
        insert (e, m) (set acc) \<union> {y. fst y \<in> set eps \<and> ?M (fst y) = Some (snd y)}"
      using Cons.IH[OF epsU inv] ins by simp
    moreover have "{y. fst y \<in> set (e # eps) \<and> ?M (fst y) = Some (snd y)}
        = insert (e, m) {y. fst y \<in> set eps \<and> ?M (fst y) = Some (snd y)}"
      using Some by (auto simp: prod_eq_iff)
    ultimately show ?thesis by simp
  qed
qed

lemma fold_groups_set:
  assumes inj: "inj_on addr U"
    and gs: "(\<Union>g\<in>set gs. set (endpoints g)) \<subseteq> U"
    and acc: "\<forall>y\<in>set acc. fst y \<in> U \<and> match_endpoint pu (SplitPath (path (fst y))) = Some (snd y)"
  shows "set (fold (\<lambda>group acc. if prefix group \<noteq> pg then acc
                                  else match_group pu (endpoints group) acc) gs acc) =
           set acc \<union> {y. \<exists>g\<in>set gs. prefix g = pg \<and> fst y \<in> set (endpoints g)
                          \<and> match_endpoint pu (SplitPath (path (fst y))) = Some (snd y)}"
  using gs acc
proof (induction gs arbitrary: acc)
  case Nil
  then show ?case by simp
next
  case (Cons g gs)
  let ?M = "\<lambda>e. match_endpoint pu (SplitPath (path e))"
  let ?F = "fold (\<lambda>group acc. if prefix group \<noteq> pg then acc
                                  else match_group pu (endpoints group) acc)"
  let ?S = "\<lambda>gs. {y. \<exists>g\<in>set gs. prefix g = pg \<and> fst y \<in> set (endpoints g)
                          \<and> ?M (fst y) = Some (snd y)}"
  from Cons.prems have gU: "set (endpoints g) \<subseteq> U"
    and gsU: "(\<Union>g\<in>set gs. set (endpoints g)) \<subseteq> U" by simp_all
  show ?case
  proof (cases "prefix g = pg")
    case False
    then have "?F (g # gs) acc = ?F gs acc" by simp
    then have "set (?F (g # gs) acc) = set acc \<union> ?S gs"
      using Cons.IH[OF gsU Cons.prems(2)] by simp
    moreover have "?S (g # gs) = ?S gs" using False by auto
    ultimately show ?thesis by simp
  next
    case True
    note step = match_group_set[OF inj gU Cons.prems(2)]
    have inv: "\<forall>y\<in>set (match_group pu (endpoints g) acc). fst y \<in> U \<and> ?M (fst y) = Some (snd y)"
      unfolding step using Cons.prems(2) gU by blast
    from True have "?F (g # gs) acc = ?F gs (match_group pu (endpoints g) acc)" by simp
    then have "set (?F (g # gs) acc) =
        (set acc \<union> {y. fst y \<in> set (endpoints g) \<and> ?M (fst y) = Some (snd y)}) \<union> ?S gs"
      using Cons.IH[OF gsU inv] step by simp
    moreover have "?S (g # gs) = {y. fst y \<in> set (endpoints g) \<and> ?M (fst y) = Some (snd y)} \<union> ?S gs"
      using True by auto
    ultimately show ?thesis by (simp add: Un_assoc)
  qed
qed

lemma path_match_set:
  assumes inj: "inj_on addr (\<Union>g\<in>set endpointGroups. set (endpoints g))"
    and ne: "partsURI \<noteq> []"
  shows "set (path_match endpointGroups pathGroup partsURI) =
           {y. \<exists>g\<in>set endpointGroups. prefix g = pathGroup \<and> fst y \<in> set (endpoints g)
                 \<and> match_endpoint partsURI (SplitPath (path (fst y))) = Some (snd y)}"
  using fold_groups_set[OF inj subset_refl, of "[]" partsURI pathGroup] ne
  by (simp add: path_match_def)

text \<open>
  Claim C3, as amended. A request that passes the admission checks (no warm-up, a valid
  peer address), whose verb is OPTIONS and whose URI matches at least one endpoint, is
  answered at once: status 200, the default headers, \<open>Access-Control-Allow-Methods\<close> with
  \<open>OPTIONS\<close> followed by the verb of every entry of the match set,
  \<open>Access-Control-Allow-Headers: Content-Type\<close>, and an empty body; the work queue is as
  before, so no work item is enqueued. When the endpoints of the registry are distinct
  objects, the match set holds exactly the endpoints of the groups named by the first
  segment whose template matches the remaining segments.
\<close>

theorem options_short_circuit:
  "warmup env = None \<and> peerValid hreq \<and> reqMethod hreq = OPTIONS
   \<and> reqURI hreq = ''/v1/'' @ rest \<and> SplitPath rest = pathGroup # partsURI
   \<and> path_match endpointGroups pathGroup partsURI \<noteq> [] \<Longrightarrow>
   sapi_request_cb env endpointGroups workQueue hreq =
     (Answered
        (hreq\<lparr>outHeaders := outHeaders hreq @
            [(''User-Agent'', CLIENT_NAME env),
             (''Client-Version'', strClientVersion env),
             (''SAPI-Version'', ''1.0''),
             (''Access-Control-Allow-Origin'', ''*''),
             (''Access-Control-Allow-Methods'',
                ''OPTIONS'' @ concat (map (\<lambda>entry. '', '' @ RequestMethodString (endpoint_method (fst entry)))
                                  (path_match endpointGroups pathGroup partsURI))),
             (''Access-Control-Allow-Headers'', ''Content-Type'')],
           reply := Some (200, PlainBody [])\<rparr>),
      workQueue)
   \<and> (inj_on addr (\<Union>g\<in>set endpointGroups. set (endpoints g)) \<longrightarrow>
        set (path_match endpointGroups pathGroup partsURI) =
          {y. \<exists>g\<in>set endpointGroups. prefix g = pathGroup \<and> fst y \<in> set (endpoints g)
                \<and> match_endpoint partsURI (SplitPath (path (fst y))) = Some (snd y)})"
proof (intro conjI impI)
  assume a: "warmup env = None \<and> peerValid hreq \<and> reqMethod hreq = OPTIONS
   \<and> reqURI hreq = ''/v1/'' @ rest \<and> SplitPath rest = pathGroup # partsURI
   \<and> path_match endpointGroups pathGroup partsURI \<noteq> []"
  then have m: "reqMethod hreq \<noteq> UNKNOWN" by simp
  from a have "sapi_request_cb env endpointGroups workQueue hreq
         = sapi_route env endpointGroups workQueue hreq (''/'' @ rest)"
    by (intro sapi_request_cb_admitted m) simp_all
  also from a have "\<dots> = (Answered
        (hreq\<lparr>outHeaders := outHeaders hreq @
            [(''User-Agent'', CLIENT_NAME env),
             (''Client-Version'', strClientVersion env),
             (''SAPI-Version'', ''1.0''),
             (''Access-Control-Allow-Origin'', ''*''),
             (''Access-Control-Allow-Methods'',
                ''OPTIONS'' @ concat (map (\<lambda>entry. '', '' @ RequestMethodString (endpoint_method (fst entry)))
                                  (path_match endpointGroups pathGroup partsURI))),
             (''Access-Control-Allow-Headers'', ''Content-Type'')],
           reply := Some (200, PlainBody [])\<rparr>),
      workQueue)"
    by (intro sapi_route_options) simp_all
  finally show "sapi_request_cb env endpointGroups workQueue hreq = (Answered
        (hreq\<lparr>outHeaders := outHeaders hreq @
            [(''User-Agent'', CLIENT_NAME env),
             (''Client-Version'', strClientVersion env),
             (''SAPI-Version'', ''1.0''),
             (''Access-Control-Allow-Origin'', ''*''),
             (''Access-Control-Allow-Methods'',
                ''OPTIONS'' @ concat (map (\<lambda>entry. '', '' @ RequestMethodString (endpoint_method (fst entry)))
                                  (path_match endpointGroups pathGroup partsURI))),
             (''Access-Control-Allow-Headers'', ''Content-Type'')],
           reply := Some (200, PlainBody [])\<rparr>),
      workQueue)" .
next
  assume a: "warmup env = None \<and> peerValid hreq \<and> reqMethod hreq = OPTIONS
   \<and> reqURI hreq = ''/v1/'' @ rest \<and> SplitPath rest = pathGroup # partsURI
   \<and> path_match endpointGroups pathGroup partsURI \<noteq> []"
    and inj: "inj_on addr (\<Union>g\<in>set endpointGroups. set (endpoints g))"
  from a have "partsURI \<noteq> []" by (auto simp: path_match_def)
  from path_match_set[OF inj this]
  show "set (path_match endpointGroups pathGroup partsURI) =
          {y. \<exists>g\<in>set endpointGroups. prefix g = pathGroup \<and> fst y \<in> set (endpoints g)
                \<and> match_endpoint partsURI (SplitPath (path (fst y))) = Some (snd y)}" .
qed

lemma ex_groups_balance_match:
  "path_match ex_groups ''addr'' [''ABC123'', ''balance'']
     = [(ex_balance, [''address'' \<mapsto> ''ABC123''])]"
  by (simp add: path_match_def match_group_def match_endpoint_def match_loop_unfold seg_at_def
        is_param_def param_key_def map_insert_def ex_groups_def ex_balance_def ex_post_def)

theorem options_short_circuit_witness:
  "outcome_reply (fst (sapi_request_cb ex_env ex_groups (Some ex_queue)
                         (ex_request OPTIONS ''/v1/addr/ABC123/balance'')))
     = Some (200, PlainBody [])
   \<and> outcome_headers (fst (sapi_request_cb ex_env ex_groups (Some ex_queue)
                             (ex_request OPTIONS ''/v1/addr/ABC123/balance'')))
     = [(''User-Agent'', ''SmartCash''), (''Client-Version'', ''v1.3''),
        (''SAPI-Version'', ''1.0''), (''Access-Control-Allow-Origin'', ''*''),
        (''Access-Control-Allow-Methods'', ''OPTIONS, GET''),
        (''Access-Control-Allow-Headers'', ''Content-Type'')]
   \<and> snd (sapi_request_cb ex_env ex_groups (Some ex_queue)
            (ex_request OPTIONS ''/v1/addr/ABC123/balance''))
     = Some ex_queue
   \<and> inj_on addr (\<Union>g\<in>set ex_groups. set (endpoints g))
   \<and> set (path_match ex_groups ''addr'' [''ABC123'', ''balance'']) =
       {y. \<exists>g\<in>set ex_groups. prefix g = ''addr'' \<and> fst y \<in> set (endpoints g)
             \<and> match_endpoint [''ABC123'', ''balance''] (SplitPath (path (fst y))) = Some (snd y)}"
proof -
  let ?req = "ex_request OPTIONS ''/v1/addr/ABC123/balance''"
  note pm = ex_groups_balance_match
  have hyp: "warmup ex_env = None \<and> peerValid ?req \<and> reqMethod ?req = OPTIONS
     \<and> reqURI ?req = ''/v1/'' @ ''addr/ABC123/balance''
     \<and> SplitPath ''addr/ABC123/balance'' = ''addr'' # [''ABC123'', ''balance'']
     \<and> path_match ex_groups ''addr'' [''ABC123'', ''balance''] \<noteq> []"
    unfolding pm by (simp add: ex_env_def ex_request_def)
  note res = options_short_circuit[OF hyp, of "Some ex_queue", THEN conjunct1]
  have inj: "inj_on addr (\<Union>g\<in>set ex_groups. set (endpoints g))"
    by (simp add: ex_groups_def ex_balance_def ex_post_def)
  from options_short_circuit[OF hyp, of "Some ex_queue", THEN conjunct2] inj
  have matched: "set (path_match ex_groups ''addr'' [''ABC123'', ''balance'']) =
       {y. \<exists>g\<in>set ex_groups. prefix g = ''addr'' \<and> fst y \<in> set (endpoints g)
             \<and> match_endpoint [''ABC123'', ''balance''] (SplitPath (path (fst y))) = Some (snd y)}"
    by (rule mp)
  have replied: "outcome_reply (fst (sapi_request_cb ex_env ex_groups (Some ex_queue) ?req))
       = Some (200, PlainBody [])
     \<and> outcome_headers (fst (sapi_request_cb ex_env ex_groups (Some ex_queue) ?req))
       = [(''User-Agent'', ''SmartCash''), (''Client-Version'', ''v1.3''),
          (''SAPI-Version'', ''1.0''), (''Access-Control-Allow-Origin'', ''*''),
          (''Access-Control-Allow-Methods'', ''OPTIONS, GET''),
          (''Access-Control-Allow-Headers'', ''Content-Type'')]
     \<and> snd (sapi_request_cb ex_env ex_groups (Some ex_queue) ?req) = Some ex_queue"
    unfolding res pm
    by (simp add: outcome_reply_def outcome_headers_def ex_env_def ex_request_def
          ex_balance_def)
  from replied inj matched show ?thesis by (intro conjI) simp_all
qed

text \<open>
  Claim C3 as stated fails for a request that is rejected at admission: during warm-up an
  OPTIONS request whose URI matches an endpoint is answered 503, not 200.
\<close>

theorem options_during_warmup_counterexample:
  "reqMethod (ex_request OPTIONS ''/v1/addr/ABC123/balance'') = OPTIONS
   \<and> path_match ex_groups ''addr'' [''ABC123'', ''balance''] \<noteq> []
   \<and> outcome_reply (fst (sapi_request_cb (ex_env\<lparr>warmup := Some ''Loading block index...''\<rparr>)
                           ex_groups (Some ex_queue)
                           (ex_request OPTIONS ''/v1/addr/ABC123/balance'')))
       = Some (503, ErrorArrayBody
                 [\<lparr>code = Undefined,
                   message = ''Service temporarily unavailable: Loading block index...''\<rparr>])"
  by (simp add: ex_groups_balance_match sapi_request_cb_def CheckWarmup_def
        Error_message_def Error_results_def WriteReplyRaw_def outcome_reply_def
        ex_env_def ex_request_def HTTP_SERVICE_UNAVAILABLE_def)

lemma SplitPath_nonempty: "SplitPath s \<noteq> []"
  by (induction s) (auto split: list.splits)

text \<open>
  Claim C2 at its failing input. The empty path splits into one empty segment, so the
  branch for a template without segments (line 175) is never taken. For the request
  \<open>/v1/g\<close> no segment follows the group, the guard of line 163 skips the matching, and the
  root endpoint of the group \<open>g\<close> is not matched: the reply is 404. The requests \<open>/v1/g/\<close>
  and \<open>/v1/g//\<close> both match it and are handed to the work queue.
\<close>

theorem root_endpoint_not_matched:
  "SplitPath (path ex_root) = [[]]
   \<and> SplitPath ''g'' = [''g'']
   \<and> path_match [\<lparr>prefix = ''g'', endpoints = [ex_root]\<rparr>] ''g'' [] = []
   \<and> outcome_reply (fst (sapi_request_cb ex_env [\<lparr>prefix = ''g'', endpoints = [ex_root]\<rparr>]
                            (Some ex_queue) (ex_request GET ''/v1/g'')))
      = Some (404, ErrorArrayBody
                [\<lparr>code = Undefined, message = ''Invalid endpoint: /v1/g with method: GET''\<rparr>])
   \<and> fst (sapi_request_cb ex_env [\<lparr>prefix = ''g'', endpoints = [ex_root]\<rparr>]
             (Some ex_queue) (ex_request GET ''/v1/g/'')) = Queued
   \<and> fst (sapi_request_cb ex_env [\<lparr>prefix = ''g'', endpoints = [ex_root]\<rparr>]
             (Some ex_queue) (ex_request GET ''/v1/g//'')) = Queued"
  by (simp add: sapi_request_cb_def sapi_route_def CheckWarmup_def ClientAllowed_def
        versionSubPath_def Let_def path_match_def match_group_def match_endpoint_def
        match_loop_unfold seg_at_def is_param_def UnknownEndpointHandler_def
        Error_message_reply outcome_reply_def Enqueue_def
        ex_env_def ex_request_def ex_root_def ex_queue_def HTTP_NOT_FOUND_def)

text \<open>
  Claim C6 at its failing input. With the work queue full, a request that matches an
  endpoint is answered 500 with the plain text \<open>Work queue depth exceeded\<close>: no header is
  written, neither the default ones nor \<open>Content-Type\<close>, and the body is not a JSON array
  of errors.
\<close>

theorem queue_full_reply_is_plain_text:
  "sapi_request_cb ex_env [\<lparr>prefix = ''addr'', endpoints = [ex_balance]\<rparr>]
      (Some \<lparr>running = True, maxDepth = 1, queue = [queued]\<rparr>)
      (ex_request GET ''/v1/addr/ABC123/balance'')
   = (Answered
        \<lparr>reqMethod = GET, reqURI = ''/v1/addr/ABC123/balance'', peerValid = True,
         inBody = [], bodyReads = 0, outHeaders = [],
         reply = Some (500, PlainBody ''Work queue depth exceeded'')\<rparr>,
      Some \<lparr>running = True, maxDepth = 1, queue = [queued]\<rparr>)"
  by (simp add: sapi_request_cb_def sapi_route_def CheckWarmup_def ClientAllowed_def
        versionSubPath_def Let_def path_match_def match_group_def match_endpoint_def
        match_loop_unfold seg_at_def is_param_def param_key_def map_insert_def
        Enqueue_def WriteReplyRaw_def
        ex_env_def ex_request_def ex_balance_def HTTP_INTERNAL_SERVER_ERROR_def)

section \<open>Properties of the body validation\<close>








text \<open>
  Claim C9. For an endpoint whose body root is neither array nor object,
  \<open>SAPIValidateBody\<close> returns true and leaves the request as it was (the input buffer is not
  read) and the body value as it was, whatever parameters the endpoint declares; and
  \<open>SAPIExecuteEndpoint\<close> calls the handler with the null value.
\<close>

theorem no_body_root_skips_validation:
  "bodyRoot endpoint \<noteq> VARR \<and> bodyRoot endpoint \<noteq> VOBJ \<Longrightarrow>
   SAPIValidateBody env req endpoint bodyParameter = (True, req, bodyParameter)
   \<and> SAPIValidateBody env req (endpoint\<lparr>vecBodyParameter := ps\<rparr>) bodyParameter
       = (True, req, bodyParameter)
   \<and> SAPIExecuteEndpoint env req mapPathParams endpoint
       = handler endpoint req mapPathParams UvNull"
  by (simp add: SAPIValidateBody_def SAPIExecuteEndpoint_def)

theorem no_body_root_skips_validation_witness:
  "(bodyRoot ex_balance \<noteq> VARR \<and> bodyRoot ex_balance \<noteq> VOBJ)
   \<and> SAPIValidateBody ex_env ((ex_request GET ''/v1/addr/ABC123/balance'')\<lparr>inBody := ''text''\<rparr>)
        ex_balance UvNull
       = (True, (ex_request GET ''/v1/addr/ABC123/balance'')\<lparr>inBody := ''text''\<rparr>, UvNull)
   \<and> SAPIExecuteEndpoint ex_env
        ((ex_request GET ''/v1/addr/ABC123/balance'')\<lparr>inBody := ''text''\<rparr>)
        [''address'' \<mapsto> ''ABC123''] ex_balance
       = (True, (ex_request GET ''/v1/addr/ABC123/balance'')\<lparr>inBody := ''text''\<rparr>)"
proof -
  have h: "bodyRoot ex_balance \<noteq> VARR \<and> bodyRoot ex_balance \<noteq> VOBJ"
    by (simp add: ex_balance_def)
  note r = no_body_root_skips_validation[OF h, of ex_env
      "(ex_request GET ''/v1/addr/ABC123/balance'')\<lparr>inBody := ''text''\<rparr>" UvNull "[]"
      "[''address'' \<mapsto> ''ABC123'']"]
  have "handler ex_balance ((ex_request GET ''/v1/addr/ABC123/balance'')\<lparr>inBody := ''text''\<rparr>)
          [''address'' \<mapsto> ''ABC123''] UvNull
        = (True, (ex_request GET ''/v1/addr/ABC123/balance'')\<lparr>inBody := ''text''\<rparr>)"
    by (simp add: ex_balance_def)
  with h r show ?thesis by simp
qed

section \<open>Properties of the life cycle\<close>

text \<open>
  Claim C5 at its failing input. On a server that was never initialised,
  \<open>StopSAPIServer\<close> changes nothing. After a successful \<open>InitSAPIServer\<close>, the first
  \<open>StopSAPIServer\<close> frees the three objects and sets \<open>eventSAPI\<close> and \<open>eventBaseSAPI\<close> to 0,
  but \<open>workQueue\<close> keeps the address of the deleted queue; the second call uses it. The
  same holds when \<open>StartSAPIServer\<close> ran in between.
\<close>

theorem stop_twice_uses_freed_queue:
  "StopSAPIServer Server_initial = Inr Server_initial
   \<and> InitSAPIServer (Some 1) (Some 2) True 3 Server_initial =
       (True, \<lparr>workQueue_ptr = Some 3, eventBaseSAPI = Some 1, eventSAPI = Some 2,
               threadSAPI_started = False, live = {1, 2, 3}\<rparr>)
   \<and> StopSAPIServer \<lparr>workQueue_ptr = Some 3, eventBaseSAPI = Some 1, eventSAPI = Some 2,
                       threadSAPI_started = False, live = {1, 2, 3}\<rparr> =
       Inr \<lparr>workQueue_ptr = Some 3, eventBaseSAPI = None, eventSAPI = None,
            threadSAPI_started = False, live = {}\<rparr>
   \<and> StopSAPIServer \<lparr>workQueue_ptr = Some 3, eventBaseSAPI = None, eventSAPI = None,
                       threadSAPI_started = False, live = {}\<rparr> = Inl UseAfterFree
   \<and> then_do (StopSAPIServer (snd (StartSAPIServer
         (snd (InitSAPIServer (Some 1) (Some 2) True 3 Server_initial))))) StopSAPIServer
       = Inl UseAfterFree"
  by (auto simp add: StopSAPIServer_def then_do_def stop_workQueue_def stop_thread_def
        stop_eventSAPI_def stop_eventBase_def release_def InitSAPIServer_def
        StartSAPIServer_def Server_initial_def insert_commute)

end
